theory Spec2Isabelle
  imports Main "HOL-Library.Word" "HOL-Library.AList"
begin

section \<open>riff: \<open>knative deployer create\<close>\<close>

text \<open>
  A shallow embedding of \<^verbatim>\<open>cli/pkg/knative/commands/deployer_create.go\<close>:
  the options struct, \<^verbatim>\<open>Validate\<close> and \<^verbatim>\<open>Exec\<close>. Everything \<^verbatim>\<open>Exec\<close> does to the
  outside world (printing, the remote create, the dry-run rendering, the race) is
  recorded, in order, in a trace of events that the model returns beside the Go
  return value.
\<close>

subsection \<open>Values shared with the rest of the CLI\<close>

text \<open>
  The flag-name constants of package \<^verbatim>\<open>cli\<close> (\<^verbatim>\<open>cli.TailFlagName\<close>, ...) are declared
  outside this file. They are kept symbolic: one constructor per constant the file uses.
  \<^verbatim>\<open>cmd.Flags().Changed(cli.StripDash(X))\<close> is modelled as a lookup of the symbolic
  flag \<open>X\<close> among the flags the command line has set.
\<close>

datatype flag =
    ApplicationRefFlagName
  | ContainerRefFlagName
  | FunctionRefFlagName
  | ImageFlagName
  | IngressPolicyFlagName
  | ContainerConcurrencyFlagName
  | EnvFlagName
  | EnvFromFlagName
  | LimitCPUFlagName
  | LimitMemoryFlagName
  | MinScaleFlagName
  | MaxScaleFlagName
  | TargetPortFlagName
  | WaitTimeoutFlagName
  | DryRunFlagName
  | TailFlagName
  | NamespaceFlagName

text \<open>
  The context carries the cobra command, if any (\<^verbatim>\<open>cli.CommandFromContext(ctx)\<close> may
  return nil). Of the command only the set of changed flags is read.
\<close>

record Command =
  Changed_flags :: "flag list"

record Context =
  CommandFromContext :: "Command option"

definition Changed :: "Command \<Rightarrow> flag \<Rightarrow> bool" where
  "Changed cmd f = (f \<in> set (Changed_flags cmd))"

text \<open>
  Go errors. \<^verbatim>\<open>context.DeadlineExceeded\<close> is the standard library's sentinel value;
  every other error a collaborator may return is a \<open>Failure\<close> with its text.

  Modelled from the spec: \<^verbatim>\<open>cli.SilenceError\<close> is declared outside this file. A silenced
  error is an error value marked so that generic error rendering suppresses it; it wraps
  the error it was made from and is still a non-nil error.
\<close>

datatype error =
    DeadlineExceeded
  | SilenceError error
  | Failure string

fun IsSilent :: "error \<Rightarrow> bool" where
  "IsSilent (SilenceError e) = True"
| "IsSilent DeadlineExceeded = False"
| "IsSilent (Failure s) = False"

text \<open>
  Modelled from the spec: \<^verbatim>\<open>cli.FieldErrors\<close>, its method \<^verbatim>\<open>Also\<close> and the constructors
  \<^verbatim>\<open>cli.ErrMissingField\<close>, \<^verbatim>\<open>cli.ErrInvalidValue\<close>, \<^verbatim>\<open>cli.ErrMissingOneOf\<close> and
  \<^verbatim>\<open>cli.ErrMultipleOneOf\<close> are declared outside this file, and the spec counts the
  validation of options as routine glue without describing it. \<open>FieldErrors\<close> is taken
  to be a list of field errors, \<^verbatim>\<open>Also\<close> to append, and each constructor to yield a list
  of one error; the value of \<^verbatim>\<open>ErrInvalidValue\<close> is the string or the \<^verbatim>\<open>int32\<close> it is
  called with.
\<close>

datatype go_value = VString string | VInt32 "32 word"

datatype field_error =
    MissingField flag
  | InvalidValue go_value flag
  | MissingOneOf "flag list"
  | MultipleOneOf "flag list"
  | OtherFieldError string

type_synonym FieldErrors = "field_error list"

definition Also :: "FieldErrors \<Rightarrow> FieldErrors \<Rightarrow> FieldErrors" where
  "Also errs others = errs @ others"

definition ErrMissingField :: "flag \<Rightarrow> FieldErrors" where
  "ErrMissingField f = [MissingField f]"

definition ErrInvalidValue :: "go_value \<Rightarrow> flag \<Rightarrow> FieldErrors" where
  "ErrInvalidValue v f = [InvalidValue v f]"

definition ErrMissingOneOf :: "flag list \<Rightarrow> FieldErrors" where
  "ErrMissingOneOf fs = [MissingOneOf fs]"

definition ErrMultipleOneOf :: "flag list \<Rightarrow> FieldErrors" where
  "ErrMultipleOneOf fs = [MultipleOneOf fs]"

subsection \<open>The options and the deployer resource\<close>

text \<open>
  \<^verbatim>\<open>DeployerCreateOptions\<close>, with the embedded \<^verbatim>\<open>options.ResourceOptions\<close>
  (\<open>Namespace\<close>, \<open>Name\<close>) flattened into it. \<^verbatim>\<open>int32\<close> and \<^verbatim>\<open>int64\<close> fields are words,
  compared as signed numbers.
\<close>

record DeployerCreateOptions =
  Namespace :: string
  Name :: string
  Image :: string
  ApplicationRef :: string
  ContainerRef :: string
  FunctionRef :: string
  IngressPolicy :: string
  TargetPort :: "32 word"
  ContainerConcurrency :: "64 word"
  Env :: "string list"
  EnvFrom :: "string list"
  LimitCPU :: string
  LimitMemory :: string
  MaxScale :: "32 word"
  MinScale :: "32 word"
  Tail :: bool
  WaitTimeout :: string
  DryRun :: bool

text \<open>
  The part of \<^verbatim>\<open>knativev1alpha1.Deployer\<close> that \<^verbatim>\<open>Exec\<close> fills in. A nil pointer, slice
  or map is \<open>None\<close>. An environment variable is \<^verbatim>\<open>corev1.EnvVar\<close> with its name, its
  value and the source of its value, if any; a quantity is the value
  \<^verbatim>\<open>resource.MustParse\<close> gave.
\<close>

datatype Build =
    Build_ApplicationRef string
  | Build_ContainerRef string
  | Build_FunctionRef string

datatype EnvVarSource = SecretKeyRef string string | ConfigMapKeyRef string string

datatype EnvVar = EnvVar string string "EnvVarSource option"

datatype Quantity = Quantity string

datatype ResourceName = ResourceCPU | ResourceMemory

datatype Protocol = ProtocolTCP

record Deployer =
  ObjectMeta_Namespace :: string
  ObjectMeta_Name :: string
  Spec_Build :: "Build option"
  Spec_IngressPolicy :: string
  Spec_ContainerConcurrency :: "64 word option"
  Spec_Scale_Max :: "32 word option"
  Spec_Scale_Min :: "32 word option"
  Container_Image :: string
  Container_Env :: "EnvVar list option"
  Container_Limits :: "(ResourceName \<times> Quantity) list option"
  Container_Ports :: "(Protocol \<times> 32 word) list option"

subsection \<open>Collaborators\<close>

text \<open>
  The two operations handed to the race are closures over the created deployer:
  \<^verbatim>\<open>k8s.WaitUntilReady(ctx, restClient, "deployers", deployer)\<close> and
  \<^verbatim>\<open>c.Kail.KnativeDeployerLogs(ctx, deployer, cli.TailSinceCreateDefault, c.Stdout)\<close>.
\<close>

datatype Operation =
    WaitUntilReady string Deployer
  | KnativeDeployerLogs Deployer

text \<open>
  What the code this file calls answers. These functions live in other packages
  (\<^verbatim>\<open>race\<close>, \<^verbatim>\<open>validation\<close>, \<^verbatim>\<open>options\<close>, the generated Kubernetes client) or in
  libraries (\<^verbatim>\<open>time\<close>, \<^verbatim>\<open>resource\<close>), so they are parameters of the model:
  \<^item> \<open>cli_Name\<close> is \<^verbatim>\<open>c.Name\<close>, the name of the CLI binary;
  \<^item> \<open>Deployers_Create ns d\<close> is \<^verbatim>\<open>c.KnativeRuntime().Deployers(ns).Create(d)\<close>;
  \<^item> \<open>race_Run ctx timeout ops\<close> is \<^verbatim>\<open>race.Run(ctx, timeout, ops...)\<close>, nil being \<open>None\<close>;
  \<^item> \<open>time_ParseDuration s\<close> is Go's pair of a duration in nanoseconds and an error;
  \<^item> \<open>resource_MustParse s\<close> is \<open>None\<close> where \<^verbatim>\<open>resource.MustParse\<close> panics;
  \<^item> \<open>parsers_EnvVar s\<close> and \<open>parsers_EnvVarFrom s\<close> are \<^verbatim>\<open>parsers.EnvVar(s)\<close> and
    \<^verbatim>\<open>parsers.EnvVarFrom(s)\<close>, \<open>None\<close> where the call panics (they index the parts of
    a string split at \<^verbatim>\<open>=\<close>);
  \<^item> the two ingress policies are the constants of \<^verbatim>\<open>knativev1alpha1\<close>.
\<close>

record Config =
  cli_Name :: string
  Deployers_Create :: "string \<Rightarrow> Deployer \<Rightarrow> error + Deployer"
  race_Run :: "Context \<Rightarrow> 64 word \<Rightarrow> Operation list \<Rightarrow> error option"
  time_ParseDuration :: "string \<Rightarrow> 64 word \<times> error option"
  resource_MustParse :: "string \<Rightarrow> Quantity option"
  parsers_EnvVar :: "string \<Rightarrow> EnvVar option"
  parsers_EnvVarFrom :: "string \<Rightarrow> EnvVar option"
  IngressPolicyClusterLocal :: string
  IngressPolicyExternal :: string
  ResourceOptions_Validate :: "Context \<Rightarrow> string \<Rightarrow> string \<Rightarrow> FieldErrors"
  validation_ContainerConcurrency :: "64 word \<Rightarrow> flag \<Rightarrow> FieldErrors"
  validation_EnvVars :: "string list \<Rightarrow> flag \<Rightarrow> FieldErrors"
  validation_EnvVarFroms :: "string list \<Rightarrow> flag \<Rightarrow> FieldErrors"
  validation_Quantity :: "string \<Rightarrow> flag \<Rightarrow> FieldErrors"
  validation_PortNumber :: "32 word \<Rightarrow> flag \<Rightarrow> FieldErrors"

subsection \<open>Validate\<close>

text \<open>
  Lines 77-109: application-ref, container-ref, function-ref and image are mutually
  exclusive. The pair is (used, unused), each in the order the source appends.
\<close>

definition used_unused :: "DeployerCreateOptions \<Rightarrow> flag list \<times> flag list" where
  "used_unused opts =
     (let refs = [(ApplicationRef opts, ApplicationRefFlagName),
                  (ContainerRef opts, ContainerRefFlagName),
                  (FunctionRef opts, FunctionRefFlagName),
                  (Image opts, ImageFlagName)]
      in (map snd (filter (\<lambda>(v, f). v \<noteq> []) refs),
          map snd (filter (\<lambda>(v, f). v = []) refs)))"

definition Validate_oneof :: "DeployerCreateOptions \<Rightarrow> FieldErrors" where
  "Validate_oneof opts =
     (case used_unused opts of (used, unused) \<Rightarrow>
        if length used = 0 then ErrMissingOneOf unused
        else if length used > 1 then ErrMultipleOneOf used
        else [])"

text \<open>Lines 127-139: the scale bounds.\<close>

definition Validate_scale :: "Context \<Rightarrow> DeployerCreateOptions \<Rightarrow> FieldErrors" where
  "Validate_scale ctx opts =
     Also (Also
       (if MinScale opts <s 0
        then ErrInvalidValue (VInt32 (MinScale opts)) MinScaleFlagName else [])
       (case CommandFromContext ctx of
          None \<Rightarrow> []
        | Some cmd \<Rightarrow>
            if Changed cmd MaxScaleFlagName \<and> MaxScale opts <s 1
            then ErrInvalidValue (VInt32 (MaxScale opts)) MaxScaleFlagName else []))
       (if 0 <s MaxScale opts \<and> MaxScale opts <s MinScale opts
        then ErrInvalidValue (VInt32 (MaxScale opts)) MaxScaleFlagName else [])"

text \<open>Lines 145-151: with \<^verbatim>\<open>--tail\<close> the wait timeout must be set and must parse.\<close>

definition Validate_tail :: "Config \<Rightarrow> DeployerCreateOptions \<Rightarrow> FieldErrors" where
  "Validate_tail c opts =
     (if Tail opts then
        if WaitTimeout opts = [] then ErrMissingField WaitTimeoutFlagName
        else if snd (time_ParseDuration c (WaitTimeout opts)) \<noteq> None
        then ErrInvalidValue (VString (WaitTimeout opts)) WaitTimeoutFlagName
        else []
      else [])"

text \<open>Lines 153-155: \<^verbatim>\<open>--dry-run\<close> and \<^verbatim>\<open>--tail\<close> exclude each other.\<close>

definition Validate_dry_run :: "DeployerCreateOptions \<Rightarrow> FieldErrors" where
  "Validate_dry_run opts =
     (if DryRun opts \<and> Tail opts
      then ErrMultipleOneOf [DryRunFlagName, TailFlagName] else [])"

text \<open>\<^verbatim>\<open>Validate\<close>, every check in the order of the source.\<close>

definition Validate :: "Config \<Rightarrow> Context \<Rightarrow> DeployerCreateOptions \<Rightarrow> FieldErrors" where
  "Validate c ctx opts =
     foldl Also []
       [ResourceOptions_Validate c ctx (Namespace opts) (Name opts),
        Validate_oneof opts,
        (if IngressPolicy opts \<noteq> IngressPolicyClusterLocal c
            \<and> IngressPolicy opts \<noteq> IngressPolicyExternal c
         then ErrInvalidValue (VString (IngressPolicy opts)) IngressPolicyFlagName else []),
        validation_ContainerConcurrency c (ContainerConcurrency opts) ContainerConcurrencyFlagName,
        validation_EnvVars c (Env opts) EnvFlagName,
        validation_EnvVarFroms c (EnvFrom opts) EnvFromFlagName,
        (if LimitCPU opts \<noteq> [] then validation_Quantity c (LimitCPU opts) LimitCPUFlagName else []),
        (if LimitMemory opts \<noteq> []
         then validation_Quantity c (LimitMemory opts) LimitMemoryFlagName else []),
        Validate_scale ctx opts,
        (if TargetPort opts \<noteq> 0
         then validation_PortNumber c (TargetPort opts) TargetPortFlagName else []),
        Validate_tail c opts,
        Validate_dry_run opts]"

subsection \<open>Exec: building the resource\<close>

text \<open>Lines 161-174: the deployer literal.\<close>

definition new_Deployer :: "DeployerCreateOptions \<Rightarrow> Deployer" where
  "new_Deployer opts =
     \<lparr>ObjectMeta_Namespace = Namespace opts,
      ObjectMeta_Name = Name opts,
      Spec_Build = None,
      Spec_IngressPolicy = IngressPolicy opts,
      Spec_ContainerConcurrency = None,
      Spec_Scale_Max = None,
      Spec_Scale_Min = None,
      Container_Image = [],
      Container_Env = None,
      Container_Limits = None,
      Container_Ports = None\<rparr>"

text \<open>Lines 178-199: the build reference, the image and the container concurrency.\<close>

definition set_refs :: "Command option \<Rightarrow> DeployerCreateOptions \<Rightarrow> Deployer \<Rightarrow> Deployer" where
  "set_refs cmd opts d0 =
     (let d1 = (if ApplicationRef opts \<noteq> []
                then d0\<lparr>Spec_Build := Some (Build_ApplicationRef (ApplicationRef opts))\<rparr> else d0);
          d2 = (if ContainerRef opts \<noteq> []
                then d1\<lparr>Spec_Build := Some (Build_ContainerRef (ContainerRef opts))\<rparr> else d1);
          d3 = (if FunctionRef opts \<noteq> []
                then d2\<lparr>Spec_Build := Some (Build_FunctionRef (FunctionRef opts))\<rparr> else d2);
          d4 = (if Image opts \<noteq> [] then d3\<lparr>Container_Image := Image opts\<rparr> else d3)
      in (case cmd of
            None \<Rightarrow> d4
          | Some cm \<Rightarrow>
              if Changed cm ContainerConcurrencyFlagName
              then d4\<lparr>Spec_ContainerConcurrency := Some (ContainerConcurrency opts)\<rparr>
              else d4))"

text \<open>
  Lines 201-212: the two loops over the environment flags. Each round replaces a nil
  slice by an empty one and appends the parsed variable; a panic of the parser ends the
  whole call, which is \<open>None\<close>.
\<close>

definition append_env :: "EnvVar \<Rightarrow> Deployer \<Rightarrow> Deployer" where
  "append_env v d =
     d\<lparr>Container_Env :=
         Some ((case Container_Env d of None \<Rightarrow> [] | Some vs \<Rightarrow> vs) @ [v])\<rparr>"

fun env_loop :: "(string \<Rightarrow> EnvVar option) \<Rightarrow> string list \<Rightarrow> Deployer \<Rightarrow> Deployer option" where
  "env_loop parse [] d = Some d"
| "env_loop parse (env # envs) d =
     (case parse env of
        None \<Rightarrow> None
      | Some v \<Rightarrow> env_loop parse envs (append_env v d))"

definition set_env :: "Config \<Rightarrow> DeployerCreateOptions \<Rightarrow> Deployer \<Rightarrow> Deployer option" where
  "set_env c opts d0 =
     (case env_loop (parsers_EnvVar c) (Env opts) d0 of
        None \<Rightarrow> None
      | Some d1 \<Rightarrow> env_loop (parsers_EnvVarFrom c) (EnvFrom opts) d1)"

text \<open>
  Lines 214-224: the resource limits. \<^verbatim>\<open>resource.MustParse\<close> panics on a string that
  is no quantity, and so does Go on a store into a nil map: both are \<open>None\<close>.
\<close>

definition set_limit :: "Config \<Rightarrow> ResourceName \<Rightarrow> string \<Rightarrow> Deployer \<Rightarrow> Deployer option" where
  "set_limit c r s d =
     (if s \<noteq> [] then
        (case resource_MustParse c s of
           None \<Rightarrow> None
         | Some q \<Rightarrow>
             (case Container_Limits d of
                None \<Rightarrow> None
              | Some m \<Rightarrow> Some (d\<lparr>Container_Limits := Some (AList.update r q m)\<rparr>)))
      else Some d)"

definition set_limits :: "Config \<Rightarrow> DeployerCreateOptions \<Rightarrow> Deployer \<Rightarrow> Deployer option" where
  "set_limits c opts d0 =
     (let d1 = (if (LimitCPU opts \<noteq> [] \<or> LimitMemory opts \<noteq> []) \<and> Container_Limits d0 = None
                then d0\<lparr>Container_Limits := Some []\<rparr> else d0)
      in (case set_limit c ResourceCPU (LimitCPU opts) d1 of
            None \<Rightarrow> None
          | Some d2 \<Rightarrow> set_limit c ResourceMemory (LimitMemory opts) d2))"

text \<open>Lines 225-235: the port and the scale bounds.\<close>

definition set_port_scale :: "Command option \<Rightarrow> DeployerCreateOptions \<Rightarrow> Deployer \<Rightarrow> Deployer" where
  "set_port_scale cmd opts d0 =
     (let d1 = (if 0 <s TargetPort opts
                then d0\<lparr>Container_Ports := Some [(ProtocolTCP, TargetPort opts)]\<rparr> else d0);
          d2 = (if 0 <s MaxScale opts then d1\<lparr>Spec_Scale_Max := Some (MaxScale opts)\<rparr> else d1)
      in (case cmd of
            None \<Rightarrow> d2
          | Some cm \<Rightarrow>
              if Changed cm MinScaleFlagName
              then d2\<lparr>Spec_Scale_Min := Some (MinScale opts)\<rparr> else d2))"

text \<open>Lines 161-235 together; \<open>None\<close> when the construction panics.\<close>

definition build_deployer :: "Config \<Rightarrow> Context \<Rightarrow> DeployerCreateOptions \<Rightarrow> Deployer option" where
  "build_deployer c ctx opts =
     (let cmd = CommandFromContext ctx
      in (case set_env c opts (set_refs cmd opts (new_Deployer opts)) of
            None \<Rightarrow> None
          | Some d1 \<Rightarrow>
              (case set_limits c opts d1 of
                 None \<Rightarrow> None
               | Some d2 \<Rightarrow> Some (set_port_scale cmd opts d2))))"

subsection \<open>Exec: effects\<close>

text \<open>
  An argument of a printf-style message is a string or one of the symbolic flag names.
  A message is kept as the call that prints it: the reporting function of \<^verbatim>\<open>cli.Config\<close>,
  the format string and the arguments. The other events are the calls that leave the
  process: the dry-run rendering, the remote create and the race.
\<close>

datatype arg = Str string | FlagName flag

datatype event =
    DryRunResource Deployer
  | Create string Deployer
  | Successf string "arg list"
  | Infof string "arg list"
  | Errorf string "arg list"
  | RaceRun Context "64 word" "Operation list"

text \<open>What a call of \<^verbatim>\<open>Exec\<close> ends with: a panic, or the returned error (nil is \<open>None\<close>).\<close>

datatype outcome = Panic | Return "error option"

text \<open>Lines 237-245: render the resource on a dry run, create it remotely otherwise.\<close>

definition Exec_create ::
  "Config \<Rightarrow> DeployerCreateOptions \<Rightarrow> Deployer \<Rightarrow> (error + Deployer) \<times> event list" where
  "Exec_create c opts deployer =
     (if DryRun opts then (Inr deployer, [DryRunResource deployer])
      else (Deployers_Create c (Namespace opts) deployer, [Create (Namespace opts) deployer]))"

text \<open>Lines 260-262: the three messages of the timeout path.\<close>

definition timeout_messages :: "Config \<Rightarrow> DeployerCreateOptions \<Rightarrow> event list" where
  "timeout_messages c opts =
     [Errorf (''Timeout after %q waiting for %q to become ready'' @ [CHR 0x0A])
        [Str (WaitTimeout opts), Str (Name opts)],
      Infof (''To view status run: %s knative deployer list %s %s'' @ [CHR 0x0A])
        [Str (cli_Name c), FlagName NamespaceFlagName, Str (Namespace opts)],
      Infof (''To continue watching logs run: %s knative deployer tail %s %s %s'' @ [CHR 0x0A])
        [Str (cli_Name c), Str (Name opts), FlagName NamespaceFlagName, Str (Namespace opts)]]"

text \<open>
  Lines 247-270: with \<^verbatim>\<open>--tail\<close>, wait for readiness while streaming the logs. The parse
  error of the timeout is dropped, as in the source.
\<close>

definition Exec_tail ::
  "Config \<Rightarrow> Context \<Rightarrow> DeployerCreateOptions \<Rightarrow> Deployer \<Rightarrow> error option \<times> event list" where
  "Exec_tail c ctx opts deployer =
     (if Tail opts then
        (let timeout = fst (time_ParseDuration c (WaitTimeout opts));
             ops = [WaitUntilReady ''deployers'' deployer, KnativeDeployerLogs deployer];
             err = race_Run c ctx timeout ops;
             tr = [Infof (''Waiting for deployer %q to become ready...'' @ [CHR 0x0A])
                     [Str (ObjectMeta_Name deployer)],
                   RaceRun ctx timeout ops];
             (err', tr') = (if err = Some DeadlineExceeded
                            then (Some (SilenceError DeadlineExceeded), tr @ timeout_messages c opts)
                            else (err, tr))
         in if err' \<noteq> None then (err', tr')
            else (None, tr' @ [Successf (''Deployer %q is ready'' @ [CHR 0x0A])
                                 [Str (ObjectMeta_Name deployer)]]))
      else (None, []))"

text \<open>\<^verbatim>\<open>Exec\<close>: the returned value and the trace of effects.\<close>

definition Exec :: "Config \<Rightarrow> Context \<Rightarrow> DeployerCreateOptions \<Rightarrow> outcome \<times> event list" where
  "Exec c ctx opts =
     (case build_deployer c ctx opts of
        None \<Rightarrow> (Panic, [])
      | Some d0 \<Rightarrow>
          (case Exec_create c opts d0 of
             (Inl err, tr) \<Rightarrow> (Return (Some err), tr)
           | (Inr deployer, tr) \<Rightarrow>
               (case Exec_tail c ctx opts deployer of
                  (r, tr') \<Rightarrow>
                    (Return r,
                     tr @ [Successf (''Created deployer %q'' @ [CHR 0x0A])
                             [Str (ObjectMeta_Name deployer)]] @ tr'))))"

text \<open>Lines 250-258: the call of the race executor that \<^verbatim>\<open>Exec\<close> makes for a deployer.\<close>

definition race_call :: "Config \<Rightarrow> Context \<Rightarrow> DeployerCreateOptions \<Rightarrow> Deployer \<Rightarrow> event" where
  "race_call c ctx opts d =
     RaceRun ctx (fst (time_ParseDuration c (WaitTimeout opts)))
       [WaitUntilReady ''deployers'' d, KnativeDeployerLogs d]"

subsection \<open>Reading a trace\<close>

fun is_RaceRun :: "event \<Rightarrow> bool" where
  "is_RaceRun (RaceRun ctx t ops) = True"
| "is_RaceRun (DryRunResource d) = False"
| "is_RaceRun (Create ns d) = False"
| "is_RaceRun (Successf f as) = False"
| "is_RaceRun (Infof f as) = False"
| "is_RaceRun (Errorf f as) = False"

fun is_Create :: "event \<Rightarrow> bool" where
  "is_Create (Create ns d) = True"
| "is_Create (RaceRun ctx t ops) = False"
| "is_Create (DryRunResource d) = False"
| "is_Create (Successf f as) = False"
| "is_Create (Infof f as) = False"
| "is_Create (Errorf f as) = False"

fun is_Errorf :: "event \<Rightarrow> bool" where
  "is_Errorf (Errorf f as) = True"
| "is_Errorf (RaceRun ctx t ops) = False"
| "is_Errorf (DryRunResource d) = False"
| "is_Errorf (Create ns d) = False"
| "is_Errorf (Successf f as) = False"
| "is_Errorf (Infof f as) = False"

text \<open>The calls of the race executor in a trace, in order.\<close>

definition race_calls :: "event list \<Rightarrow> event list" where
  "race_calls tr = filter is_RaceRun tr"

text \<open>The arguments a message is parameterized by; the other events print nothing.\<close>

fun event_args :: "event \<Rightarrow> arg list" where
  "event_args (Successf f as) = as"
| "event_args (Infof f as) = as"
| "event_args (Errorf f as) = as"
| "event_args (RaceRun ctx t ops) = []"
| "event_args (DryRunResource d) = []"
| "event_args (Create ns d) = []"

text \<open>The success message of the readiness wait (line 268), for any deployer name.\<close>

fun is_ready_message :: "event \<Rightarrow> bool" where
  "is_ready_message (Successf f as) = (f = ''Deployer %q is ready'' @ [CHR 0x0A])"
| "is_ready_message (Infof f as) = False"
| "is_ready_message (Errorf f as) = False"
| "is_ready_message (RaceRun ctx t ops) = False"
| "is_ready_message (DryRunResource d) = False"
| "is_ready_message (Create ns d) = False"

text \<open>A format string prints one line: its only newline is its last character.\<close>

definition single_line :: "string \<Rightarrow> bool" where
  "single_line f = (f \<noteq> [] \<and> last f = CHR 0x0A \<and> CHR 0x0A \<notin> set (butlast f))"

text \<open>The error a collaborator call of the trace answered with, if it did.\<close>

fun call_error :: "Config \<Rightarrow> event \<Rightarrow> error option" where
  "call_error c (Create ns d) =
     (case Deployers_Create c ns d of Inl e \<Rightarrow> Some e | Inr d' \<Rightarrow> None)"
| "call_error c (RaceRun ctx t ops) = race_Run c ctx t ops"
| "call_error c (DryRunResource d) = None"
| "call_error c (Successf f as) = None"
| "call_error c (Infof f as) = None"
| "call_error c (Errorf f as) = None"

text \<open>
  The effects of a run before its first call of the race executor, and those after it.
\<close>

definition before_race :: "event list \<Rightarrow> event list" where
  "before_race tr = takeWhile (\<lambda>ev. \<not> is_RaceRun ev) tr"

definition after_race :: "event list \<Rightarrow> event list" where
  "after_race tr =
     (case dropWhile (\<lambda>ev. \<not> is_RaceRun ev) tr of [] \<Rightarrow> [] | ev # rest \<Rightarrow> rest)"

text \<open>The report of a timeout: the error line and the two hints, and nothing else.\<close>

fun is_timeout_report :: "event list \<Rightarrow> bool" where
  "is_timeout_report [Errorf f1 as1, Infof f2 as2, Infof f3 as3] =
     (f1 = ''Timeout after %q waiting for %q to become ready'' @ [CHR 0x0A]
      \<and> f2 = ''To view status run: %s knative deployer list %s %s'' @ [CHR 0x0A]
      \<and> f3 = ''To continue watching logs run: %s knative deployer tail %s %s %s''
               @ [CHR 0x0A])"
| "is_timeout_report tr = False"

text \<open>The report of readiness: the success line, and nothing else.\<close>

fun is_ready_report :: "event list \<Rightarrow> bool" where
  "is_ready_report [ev] = is_ready_message ev"
| "is_ready_report tr = False"

text \<open>
  The three terminal outcomes of the wait, read off a result of \<open>Exec\<close>. Each one fixes
  everything the run did after the race, so that nothing follows the outcome:
  \<^item> ready: nil is returned, and after the race the run printed the readiness success
    message and did nothing else;
  \<^item> failed: the error returned is the one the last call of the trace (the remote
    create or the race) answered with, and the run did nothing after the race;
  \<^item> timed out: a silenced error is returned, and after the race the run printed the
    three timeout messages and did nothing else.
\<close>

definition Ready :: "outcome \<times> event list \<Rightarrow> bool" where
  "Ready r = (fst r = Return None \<and> is_ready_report (after_race (snd r)))"

definition Failed :: "Config \<Rightarrow> outcome \<times> event list \<Rightarrow> bool" where
  "Failed c r =
     (snd r \<noteq> [] \<and> after_race (snd r) = [] \<and>
      (case fst r of
         Panic \<Rightarrow> False
       | Return None \<Rightarrow> False
       | Return (Some e) \<Rightarrow> call_error c (last (snd r)) = Some e))"

definition TimedOut :: "outcome \<times> event list \<Rightarrow> bool" where
  "TimedOut r =
     ((case fst r of
         Panic \<Rightarrow> False
       | Return None \<Rightarrow> False
       | Return (Some e) \<Rightarrow> IsSilent e) \<and>
      is_timeout_report (after_race (snd r)))"

subsection \<open>Sample invocations\<close>

text \<open>
  \<^verbatim>\<open>riff knative deployer create my-deployer --image ... --tail\<close> in namespace
  \<^verbatim>\<open>default\<close>, with the default wait timeout, called without a cobra command in the
  context.
\<close>

definition sample_ctx :: Context where
  "sample_ctx = \<lparr>CommandFromContext = None\<rparr>"

definition sample_opts :: DeployerCreateOptions where
  "sample_opts =
     \<lparr>Namespace = ''default'', Name = ''my-deployer'',
      Image = ''registry.example.com/my-image:latest'',
      ApplicationRef = [], ContainerRef = [], FunctionRef = [],
      IngressPolicy = ''ClusterLocal'', TargetPort = 0, ContainerConcurrency = 0,
      Env = [], EnvFrom = [], LimitCPU = [], LimitMemory = [],
      MaxScale = 0, MinScale = 0, Tail = True, WaitTimeout = ''10m'', DryRun = False\<rparr>"

text \<open>The same deployer rendered with \<^verbatim>\<open>--dry-run\<close> instead of \<^verbatim>\<open>--tail\<close>.\<close>

definition dry_run_opts :: DeployerCreateOptions where
  "dry_run_opts = sample_opts\<lparr>Tail := False, DryRun := True\<rparr>"

text \<open>
  Sample parsers. Only \<^verbatim>\<open>500m\<close> is a quantity. An environment variable is split at its
  first \<^verbatim>\<open>=\<close>, and the parser panics when there is none; the source of a variable is
  split once more at its first \<^verbatim>\<open>:\<close> into the name of a secret and a key.
\<close>

definition sample_MustParse :: "string \<Rightarrow> Quantity option" where
  "sample_MustParse s = (if s = ''500m'' then Some (Quantity ''500m'') else None)"

definition split_at :: "char \<Rightarrow> string \<Rightarrow> (string \<times> string) option" where
  "split_at sep s =
     (case dropWhile (\<lambda>ch. ch \<noteq> sep) s of
        [] \<Rightarrow> None
      | ch # rest \<Rightarrow> Some (takeWhile (\<lambda>ch. ch \<noteq> sep) s, rest))"

definition sample_EnvVar :: "string \<Rightarrow> EnvVar option" where
  "sample_EnvVar s =
     (case split_at (CHR ''='') s of
        None \<Rightarrow> None
      | Some (name, val) \<Rightarrow> Some (EnvVar name val None))"

definition sample_EnvVarFrom :: "string \<Rightarrow> EnvVar option" where
  "sample_EnvVarFrom s =
     (case split_at (CHR ''='') s of
        None \<Rightarrow> None
      | Some (name, src) \<Rightarrow>
          (case split_at (CHR '':'') src of
             None \<Rightarrow> None
           | Some (secret, key) \<Rightarrow> Some (EnvVar name [] (Some (SecretKeyRef secret key)))))"

text \<open>
  A cluster that accepts every deployer; the race ends with the given result. Only
  \<^verbatim>\<open>10m\<close> parses as a duration. The validators of quantities and environment variables
  reject what the sample parsers panic on and accept the rest; the other validators
  accept everything.
\<close>

definition sample_Config :: "error option \<Rightarrow> Config" where
  "sample_Config raced =
     \<lparr>cli_Name = ''riff'',
      Deployers_Create = (\<lambda>ns d. Inr d),
      race_Run = (\<lambda>ctx t ops. raced),
      time_ParseDuration =
        (\<lambda>s. if s = ''10m'' then (600000000000, None)
              else (0, Some (Failure ''time: invalid duration''))),
      resource_MustParse = sample_MustParse,
      parsers_EnvVar = sample_EnvVar,
      parsers_EnvVarFrom = sample_EnvVarFrom,
      IngressPolicyClusterLocal = ''ClusterLocal'',
      IngressPolicyExternal = ''External'',
      ResourceOptions_Validate = (\<lambda>ctx ns n. []),
      validation_ContainerConcurrency = (\<lambda>n f. []),
      validation_EnvVars =
        (\<lambda>vs f. if list_all (\<lambda>v. sample_EnvVar v \<noteq> None) vs then []
                 else [OtherFieldError ''invalid environment variable'']),
      validation_EnvVarFroms =
        (\<lambda>vs f. if list_all (\<lambda>v. sample_EnvVarFrom v \<noteq> None) vs then []
                 else [OtherFieldError ''invalid environment variable source'']),
      validation_Quantity =
        (\<lambda>s f. if sample_MustParse s = None then [InvalidValue (VString s) f] else []),
      validation_PortNumber = (\<lambda>p f. [])\<rparr>"

text \<open>The same, on a cluster that rejects the create call.\<close>

definition rejecting_Config :: Config where
  "rejecting_Config =
     (sample_Config None)\<lparr>Deployers_Create := (\<lambda>ns d. Inl (Failure ''forbidden''))\<rparr>"

text \<open>The deployer the sample options describe, and the race they start.\<close>

definition sample_deployer :: Deployer where
  "sample_deployer =
     \<lparr>ObjectMeta_Namespace = ''default'', ObjectMeta_Name = ''my-deployer'',
      Spec_Build = None, Spec_IngressPolicy = ''ClusterLocal'',
      Spec_ContainerConcurrency = None, Spec_Scale_Max = None, Spec_Scale_Min = None,
      Container_Image = ''registry.example.com/my-image:latest'',
      Container_Env = None, Container_Limits = None, Container_Ports = None\<rparr>"

definition sample_race :: event where
  "sample_race =
     RaceRun sample_ctx 600000000000
       [WaitUntilReady ''deployers'' sample_deployer, KnativeDeployerLogs sample_deployer]"

section \<open>The shape of a run\<close>

lemma Exec_create_trace:
  "snd (Exec_create c opts d0) =
     (if DryRun opts then [DryRunResource d0] else [Create (Namespace opts) d0])"
  by (simp add: Exec_create_def)

lemma Exec_past_create:
  assumes "build_deployer c ctx opts = Some d0" and "fst (Exec_create c opts d0) = Inr d"
  shows "Exec c ctx opts =
           (Return (fst (Exec_tail c ctx opts d)),
            snd (Exec_create c opts d0)
              @ [Successf (''Created deployer %q'' @ [CHR 0x0A]) [Str (ObjectMeta_Name d)]]
              @ snd (Exec_tail c ctx opts d))"
  using assms by (cases "Exec_create c opts d0") (simp add: Exec_def split: prod.splits)

lemma Exec_create_failed:
  assumes "build_deployer c ctx opts = Some d0" and "fst (Exec_create c opts d0) = Inl e"
  shows "Exec c ctx opts = (Return (Some e), snd (Exec_create c opts d0))"
  using assms by (cases "Exec_create c opts d0") (simp add: Exec_def)

lemma Exec_panic:
  assumes "build_deployer c ctx opts = None"
  shows "Exec c ctx opts = (Panic, [])"
  using assms by (simp add: Exec_def)

lemma Exec_tail_off: "\<not> Tail opts \<Longrightarrow> Exec_tail c ctx opts d = (None, [])"
  by (simp add: Exec_tail_def)

lemma Exec_tail_timeout:
  assumes "Tail opts" and "call_error c (race_call c ctx opts d) = Some DeadlineExceeded"
  shows "Exec_tail c ctx opts d =
           (Some (SilenceError DeadlineExceeded),
            [Infof (''Waiting for deployer %q to become ready...'' @ [CHR 0x0A])
               [Str (ObjectMeta_Name d)],
             race_call c ctx opts d] @ timeout_messages c opts)"
  using assms by (simp add: Exec_tail_def race_call_def Let_def)

lemma Exec_tail_failed:
  assumes "Tail opts" and "call_error c (race_call c ctx opts d) = Some e"
    and "e \<noteq> DeadlineExceeded"
  shows "Exec_tail c ctx opts d =
           (Some e,
            [Infof (''Waiting for deployer %q to become ready...'' @ [CHR 0x0A])
               [Str (ObjectMeta_Name d)],
             race_call c ctx opts d])"
  using assms by (simp add: Exec_tail_def race_call_def Let_def)

lemma Exec_tail_ready:
  assumes "Tail opts" and "call_error c (race_call c ctx opts d) = None"
  shows "Exec_tail c ctx opts d =
           (None,
            [Infof (''Waiting for deployer %q to become ready...'' @ [CHR 0x0A])
               [Str (ObjectMeta_Name d)],
             race_call c ctx opts d,
             Successf (''Deployer %q is ready'' @ [CHR 0x0A]) [Str (ObjectMeta_Name d)]])"
  using assms by (simp add: Exec_tail_def race_call_def Let_def)

lemma Exec_tail_race_calls:
  "race_calls (snd (Exec_tail c ctx opts d)) = (if Tail opts then [race_call c ctx opts d] else [])"
  by (simp add: Exec_tail_def race_call_def race_calls_def timeout_messages_def Let_def
      split: prod.splits)

lemma Exec_race_calls:
  "race_calls (snd (Exec c ctx opts)) =
     (case build_deployer c ctx opts of
        None \<Rightarrow> []
      | Some d0 \<Rightarrow>
          (case fst (Exec_create c opts d0) of
             Inl e \<Rightarrow> []
           | Inr d \<Rightarrow> if Tail opts then [race_call c ctx opts d] else []))"
proof (cases "build_deployer c ctx opts")
  case None
  then show ?thesis by (simp add: Exec_panic race_calls_def)
next
  case (Some d0)
  show ?thesis
  proof (cases "fst (Exec_create c opts d0)")
    case (Inl e)
    with Some show ?thesis
      by (simp add: Exec_create_failed Exec_create_trace race_calls_def)
  next
    case (Inr d)
    have "race_calls (snd (Exec c ctx opts)) = race_calls (snd (Exec_tail c ctx opts d))"
      using Some Inr by (simp add: Exec_past_create Exec_create_trace race_calls_def)
    with Some Inr show ?thesis by (simp add: Exec_tail_race_calls)
  qed
qed

lemma race_reached:
  assumes "RaceRun ctx' t ops \<in> set (snd (Exec c ctx opts))"
  shows "\<exists>d0 d. build_deployer c ctx opts = Some d0
           \<and> fst (Exec_create c opts d0) = Inr d
           \<and> Tail opts
           \<and> RaceRun ctx' t ops = race_call c ctx opts d"
proof -
  from assms have mem: "RaceRun ctx' t ops \<in> set (race_calls (snd (Exec c ctx opts)))"
    by (simp add: race_calls_def)
  then obtain d0 where b: "build_deployer c ctx opts = Some d0"
    by (cases "build_deployer c ctx opts") (simp_all add: Exec_race_calls)
  from mem b obtain d where cr: "fst (Exec_create c opts d0) = Inr d"
    by (cases "fst (Exec_create c opts d0)") (simp_all add: Exec_race_calls)
  from mem b cr have "Tail opts" and "RaceRun ctx' t ops = race_call c ctx opts d"
    by (simp_all add: Exec_race_calls split: if_splits)
  with b cr show ?thesis by blast
qed


lemma dry_run_trace:
  assumes "DryRun opts" and "build_deployer c ctx opts = Some d0"
  shows "Exec c ctx opts =
           (Return (fst (Exec_tail c ctx opts d0)),
            [DryRunResource d0,
             Successf (''Created deployer %q'' @ [CHR 0x0A]) [Str (ObjectMeta_Name d0)]]
              @ snd (Exec_tail c ctx opts d0))"
proof -
  from assms(1) have "fst (Exec_create c opts d0) = Inr d0"
    by (simp add: Exec_create_def)
  from Exec_past_create [OF assms(2) this] assms(1) show ?thesis
    by (simp add: Exec_create_trace)
qed

lemma after_race_wait:
  "after_race (snd (Exec_create c opts d0)
      @ Successf f as # Infof g bs # race_call c ctx opts d # rest) = rest"
  by (simp add: after_race_def Exec_create_trace race_call_def)

lemma before_race_wait:
  "before_race (snd (Exec_create c opts d0)
      @ Successf f as # Infof g bs # race_call c ctx opts d # rest)
   = snd (Exec_create c opts d0) @ [Successf f as, Infof g bs]"
  by (simp add: before_race_def Exec_create_trace race_call_def)

subsection \<open>Validated options build\<close>

text \<open>
  The construction of the resource panics only inside \<^verbatim>\<open>resource.MustParse\<close>,
  \<^verbatim>\<open>parsers.EnvVar\<close> and \<^verbatim>\<open>parsers.EnvVarFrom\<close>. When the validators of quantities and
  environment variables accept only what these parse, options that \<^verbatim>\<open>Validate\<close> accepts
  build a resource: this is what the comments at lines 218 and 222 rely on.
\<close>

lemma env_loop_ok:
  assumes "\<And>v. v \<in> set vs \<Longrightarrow> parse v \<noteq> None"
  shows "env_loop parse vs d \<noteq> None"
  using assms by (induction vs arbitrary: d) (auto split: option.splits)

lemma set_limit_ok:
  assumes "s \<noteq> [] \<Longrightarrow> resource_MustParse c s \<noteq> None"
    and "s \<noteq> [] \<Longrightarrow> Container_Limits d \<noteq> None"
  shows "\<exists>d'. set_limit c r s d = Some d'
           \<and> (Container_Limits d \<noteq> None \<longrightarrow> Container_Limits d' \<noteq> None)"
  using assms by (cases "s = []") (auto simp: set_limit_def split: option.splits)

lemma set_limits_ok:
  assumes "LimitCPU opts \<noteq> [] \<Longrightarrow> resource_MustParse c (LimitCPU opts) \<noteq> None"
    and "LimitMemory opts \<noteq> [] \<Longrightarrow> resource_MustParse c (LimitMemory opts) \<noteq> None"
  shows "set_limits c opts d \<noteq> None"
proof -
  define d1 where "d1 =
    (if (LimitCPU opts \<noteq> [] \<or> LimitMemory opts \<noteq> []) \<and> Container_Limits d = None
     then d\<lparr>Container_Limits := Some []\<rparr> else d)"
  have l1: "LimitCPU opts \<noteq> [] \<or> LimitMemory opts \<noteq> [] \<Longrightarrow> Container_Limits d1 \<noteq> None"
    by (auto simp: d1_def)
  from set_limit_ok [of "LimitCPU opts" c d1 ResourceCPU] assms(1) l1
  obtain d2 where d2: "set_limit c ResourceCPU (LimitCPU opts) d1 = Some d2"
    and l2: "Container_Limits d1 \<noteq> None \<longrightarrow> Container_Limits d2 \<noteq> None"
    by blast
  from set_limit_ok [of "LimitMemory opts" c d2 ResourceMemory] assms(2) l1 l2
  obtain d3 where "set_limit c ResourceMemory (LimitMemory opts) d2 = Some d3"
    by blast
  moreover have "set_limits c opts d =
      (case set_limit c ResourceCPU (LimitCPU opts) d1 of
         None \<Rightarrow> None
       | Some d2 \<Rightarrow> set_limit c ResourceMemory (LimitMemory opts) d2)"
    by (simp only: set_limits_def d1_def Let_def)
  ultimately show ?thesis using d2 by simp
qed

lemma Validate_builds:
  assumes v: "Validate c ctx opts = []"
    and q: "\<And>s f. validation_Quantity c s f = [] \<Longrightarrow> resource_MustParse c s \<noteq> None"
    and e: "\<And>vs f v. validation_EnvVars c vs f = [] \<Longrightarrow> v \<in> set vs \<Longrightarrow> parsers_EnvVar c v \<noteq> None"
    and ef: "\<And>vs f v. validation_EnvVarFroms c vs f = [] \<Longrightarrow> v \<in> set vs
               \<Longrightarrow> parsers_EnvVarFrom c v \<noteq> None"
  shows "build_deployer c ctx opts \<noteq> None"
proof -
  let ?d0 = "set_refs (CommandFromContext ctx) opts (new_Deployer opts)"
  from v have ve: "validation_EnvVars c (Env opts) EnvFlagName = []"
    and vf: "validation_EnvVarFroms c (EnvFrom opts) EnvFromFlagName = []"
    and vc: "LimitCPU opts \<noteq> [] \<Longrightarrow> validation_Quantity c (LimitCPU opts) LimitCPUFlagName = []"
    and vm: "LimitMemory opts \<noteq> []
               \<Longrightarrow> validation_Quantity c (LimitMemory opts) LimitMemoryFlagName = []"
    by (simp_all add: Validate_def Also_def)
  from env_loop_ok [of "Env opts" "parsers_EnvVar c" ?d0] e [OF ve]
  obtain d1 where d1: "env_loop (parsers_EnvVar c) (Env opts) ?d0 = Some d1" by blast
  from env_loop_ok [of "EnvFrom opts" "parsers_EnvVarFrom c" d1] ef [OF vf]
  obtain d2 where d2: "env_loop (parsers_EnvVarFrom c) (EnvFrom opts) d1 = Some d2" by blast
  from d1 d2 have se: "set_env c opts ?d0 = Some d2" by (simp add: set_env_def)
  have "set_limits c opts d2 \<noteq> None"
    by (rule set_limits_ok) (use q [OF vc] q [OF vm] in blast)+
  with se show ?thesis by (auto simp: build_deployer_def Let_def split: option.splits)
qed

section \<open>The sample runs\<close>

lemma Validate_empty:
  assumes "Validate c ctx opts = []"
  shows "Validate_tail c opts = []" and "Validate_dry_run opts = []"
  using assms by (simp_all add: Validate_def Also_def)

lemma sample_build:
  "build_deployer (sample_Config raced) sample_ctx sample_opts = Some sample_deployer"
  by (simp add: build_deployer_def set_limits_def set_limit_def set_env_def set_refs_def sample_MustParse_def
      set_port_scale_def new_Deployer_def sample_opts_def sample_ctx_def sample_deployer_def
      sample_Config_def)

lemma sample_create:
  "Exec_create (sample_Config raced) sample_opts sample_deployer =
     (Inr sample_deployer, [Create ''default'' sample_deployer])"
  by (simp add: Exec_create_def sample_opts_def sample_Config_def)

lemma sample_race_call:
  "race_call (sample_Config raced) sample_ctx sample_opts sample_deployer = sample_race"
  by (simp add: race_call_def sample_race_def sample_opts_def sample_Config_def)

lemma sample_race_Run: "call_error (sample_Config raced) sample_race = raced"
  by (simp add: sample_race_def sample_Config_def)

lemma sample_Tail: "Tail sample_opts"
  by (simp add: sample_opts_def)

lemma sample_reaches_race:
  "sample_race \<in> set (snd (Exec (sample_Config raced) sample_ctx sample_opts))"
proof -
  have "race_calls (snd (Exec (sample_Config raced) sample_ctx sample_opts)) = [sample_race]"
    by (simp add: Exec_race_calls sample_build sample_create sample_race_call sample_Tail)
  then have "sample_race \<in> set (race_calls (snd (Exec (sample_Config raced) sample_ctx sample_opts)))"
    by simp
  then show ?thesis by (simp add: race_calls_def)
qed

lemma rejecting_build:
  "build_deployer rejecting_Config sample_ctx sample_opts = Some sample_deployer"
  by (simp add: build_deployer_def set_limits_def set_limit_def set_env_def set_refs_def sample_MustParse_def
      set_port_scale_def new_Deployer_def sample_opts_def sample_ctx_def sample_deployer_def
      sample_Config_def rejecting_Config_def)

lemma rejecting_create:
  "Deployers_Create rejecting_Config (Namespace sample_opts) sample_deployer
     = Inl (Failure ''forbidden'')"
  by (simp add: rejecting_Config_def)

lemma sample_not_DryRun: "\<not> DryRun sample_opts"
  by (simp add: sample_opts_def)

lemma dry_run_build:
  "build_deployer (sample_Config None) sample_ctx dry_run_opts = Some sample_deployer"
  by (simp add: build_deployer_def set_limits_def set_limit_def set_env_def set_refs_def sample_MustParse_def
      set_port_scale_def new_Deployer_def sample_opts_def sample_ctx_def sample_deployer_def
      sample_Config_def dry_run_opts_def)

lemma dry_run_Validate: "Validate (sample_Config None) sample_ctx dry_run_opts = []"
  by (simp add: Validate_def Also_def Validate_oneof_def used_unused_def Validate_scale_def
      Validate_tail_def Validate_dry_run_def sample_opts_def sample_ctx_def sample_Config_def
      dry_run_opts_def)

lemma sample_timeout_run:
  "Exec (sample_Config (Some DeadlineExceeded)) sample_ctx sample_opts =
     (Return (Some (SilenceError DeadlineExceeded)),
      [Create ''default'' sample_deployer,
       Successf (''Created deployer %q'' @ [CHR 0x0A]) [Str ''my-deployer''],
       Infof (''Waiting for deployer %q to become ready...'' @ [CHR 0x0A]) [Str ''my-deployer''],
       sample_race,
       Errorf (''Timeout after %q waiting for %q to become ready'' @ [CHR 0x0A])
         [Str ''10m'', Str ''my-deployer''],
       Infof (''To view status run: %s knative deployer list %s %s'' @ [CHR 0x0A])
         [Str ''riff'', FlagName NamespaceFlagName, Str ''default''],
       Infof (''To continue watching logs run: %s knative deployer tail %s %s %s'' @ [CHR 0x0A])
         [Str ''riff'', Str ''my-deployer'', FlagName NamespaceFlagName, Str ''default'']])"
proof -
  have n: "ObjectMeta_Name sample_deployer = ''my-deployer''"
    by (simp add: sample_deployer_def)
  have m: "timeout_messages (sample_Config (Some DeadlineExceeded)) sample_opts =
      [Errorf (''Timeout after %q waiting for %q to become ready'' @ [CHR 0x0A])
         [Str ''10m'', Str ''my-deployer''],
       Infof (''To view status run: %s knative deployer list %s %s'' @ [CHR 0x0A])
         [Str ''riff'', FlagName NamespaceFlagName, Str ''default''],
       Infof (''To continue watching logs run: %s knative deployer tail %s %s %s'' @ [CHR 0x0A])
         [Str ''riff'', Str ''my-deployer'', FlagName NamespaceFlagName, Str ''default'']]"
    by (simp add: timeout_messages_def sample_Config_def sample_opts_def)
  show ?thesis
    by (simp add: Exec_past_create [OF sample_build] sample_create
        Exec_tail_timeout [OF sample_Tail] sample_race_call sample_race_Run n m)
qed

lemma sample_Validate: "Validate (sample_Config None) sample_ctx sample_opts = []"
  by (simp add: Validate_def Also_def Validate_oneof_def used_unused_def Validate_scale_def
      Validate_tail_def Validate_dry_run_def sample_opts_def sample_ctx_def sample_Config_def)

section \<open>The wait for readiness\<close>

text \<open>
  C1. With \<^verbatim>\<open>--tail\<close>, when the race that \<^verbatim>\<open>Exec\<close> started returns
  \<^verbatim>\<open>context.DeadlineExceeded\<close>, the last effects of \<^verbatim>\<open>Exec\<close>, right after the race, are
  the timeout guidance: the error line of the timeout, the hint how to view the status
  (\<^verbatim>\<open>deployer list\<close>) and the hint how to continue watching the logs
  (\<^verbatim>\<open>deployer tail\<close>). \<^verbatim>\<open>Exec\<close> returns the silenced deadline error: a non-nil error
  that \<open>IsSilent\<close> holds of.
\<close>

theorem Exec_timeout_silenced:
  assumes "Tail opts"
    and "RaceRun ctx' t ops \<in> set (snd (Exec c ctx opts))"
    and "race_Run c ctx' t ops = Some DeadlineExceeded"
  shows "\<exists>e pre. Exec c ctx opts =
           (Return (Some e),
            pre @ [RaceRun ctx' t ops,
              Errorf (''Timeout after %q waiting for %q to become ready'' @ [CHR 0x0A])
                [Str (WaitTimeout opts), Str (Name opts)],
              Infof (''To view status run: %s knative deployer list %s %s'' @ [CHR 0x0A])
                [Str (cli_Name c), FlagName NamespaceFlagName, Str (Namespace opts)],
              Infof (''To continue watching logs run: %s knative deployer tail %s %s %s''
                       @ [CHR 0x0A])
                [Str (cli_Name c), Str (Name opts), FlagName NamespaceFlagName,
                 Str (Namespace opts)]])
           \<and> e = SilenceError DeadlineExceeded \<and> IsSilent e"
proof -
  from race_reached [OF assms(2)] obtain d0 d where
    b: "build_deployer c ctx opts = Some d0" and cr: "fst (Exec_create c opts d0) = Inr d"
    and rc: "RaceRun ctx' t ops = race_call c ctx opts d" by blast
  from assms(3) rc have "call_error c (race_call c ctx opts d) = Some DeadlineExceeded"
    by (metis call_error.simps(2))
  from Exec_tail_timeout [OF assms(1) this] Exec_past_create [OF b cr] rc
  have "Exec c ctx opts =
      (Return (Some (SilenceError DeadlineExceeded)),
       (snd (Exec_create c opts d0)
          @ [Successf (''Created deployer %q'' @ [CHR 0x0A]) [Str (ObjectMeta_Name d)],
             Infof (''Waiting for deployer %q to become ready...'' @ [CHR 0x0A])
               [Str (ObjectMeta_Name d)]])
         @ [RaceRun ctx' t ops,
              Errorf (''Timeout after %q waiting for %q to become ready'' @ [CHR 0x0A])
                [Str (WaitTimeout opts), Str (Name opts)],
              Infof (''To view status run: %s knative deployer list %s %s'' @ [CHR 0x0A])
                [Str (cli_Name c), FlagName NamespaceFlagName, Str (Namespace opts)],
              Infof (''To continue watching logs run: %s knative deployer tail %s %s %s''
                       @ [CHR 0x0A])
                [Str (cli_Name c), Str (Name opts), FlagName NamespaceFlagName,
                 Str (Namespace opts)]])"
    by (simp add: timeout_messages_def)
  then show ?thesis by (metis IsSilent.simps(1))
qed

theorem Exec_timeout_silenced_witness:
  "Tail sample_opts
   \<and> sample_race \<in> set (snd (Exec (sample_Config (Some DeadlineExceeded)) sample_ctx sample_opts))
   \<and> call_error (sample_Config (Some DeadlineExceeded)) sample_race = Some DeadlineExceeded
   \<and> fst (Exec (sample_Config (Some DeadlineExceeded)) sample_ctx sample_opts)
       = Return (Some (SilenceError DeadlineExceeded))
   \<and> drop 4 (snd (Exec (sample_Config (Some DeadlineExceeded)) sample_ctx sample_opts))
       = [Errorf (''Timeout after %q waiting for %q to become ready'' @ [CHR 0x0A])
            [Str ''10m'', Str ''my-deployer''],
          Infof (''To view status run: %s knative deployer list %s %s'' @ [CHR 0x0A])
            [Str ''riff'', FlagName NamespaceFlagName, Str ''default''],
          Infof (''To continue watching logs run: %s knative deployer tail %s %s %s''
                   @ [CHR 0x0A])
            [Str ''riff'', Str ''my-deployer'', FlagName NamespaceFlagName, Str ''default'']]"
proof -
  let ?c = "sample_Config (Some DeadlineExceeded)"
  have h2: "RaceRun sample_ctx 600000000000
       [WaitUntilReady ''deployers'' sample_deployer, KnativeDeployerLogs sample_deployer]
     \<in> set (snd (Exec ?c sample_ctx sample_opts))"
    using sample_reaches_race [of "Some DeadlineExceeded"] by (simp add: sample_race_def)
  have h3: "race_Run ?c sample_ctx 600000000000
       [WaitUntilReady ''deployers'' sample_deployer, KnativeDeployerLogs sample_deployer]
     = Some DeadlineExceeded"
    by (simp add: sample_Config_def)
  have vals: "WaitTimeout sample_opts = ''10m''" "Name sample_opts = ''my-deployer''"
    "Namespace sample_opts = ''default''" "cli_Name ?c = ''riff''"
    by (simp_all add: sample_opts_def sample_Config_def)
  have len: "length (snd (Exec ?c sample_ctx sample_opts)) = 7"
    by (simp add: sample_timeout_run)
  from Exec_timeout_silenced [OF sample_Tail h2 h3] obtain pre where
    run: "Exec ?c sample_ctx sample_opts =
      (Return (Some (SilenceError DeadlineExceeded)),
       pre @ [RaceRun sample_ctx 600000000000
         [WaitUntilReady ''deployers'' sample_deployer, KnativeDeployerLogs sample_deployer],
         Errorf (''Timeout after %q waiting for %q to become ready'' @ [CHR 0x0A])
            [Str ''10m'', Str ''my-deployer''],
          Infof (''To view status run: %s knative deployer list %s %s'' @ [CHR 0x0A])
            [Str ''riff'', FlagName NamespaceFlagName, Str ''default''],
          Infof (''To continue watching logs run: %s knative deployer tail %s %s %s''
                   @ [CHR 0x0A])
            [Str ''riff'', Str ''my-deployer'', FlagName NamespaceFlagName, Str ''default'']])"
    unfolding vals by blast
  from run len have "length pre = 3" by simp
  with run h2 h3 sample_Tail show ?thesis by (simp add: sample_race_def)
qed

text \<open>
  C2. With \<^verbatim>\<open>--tail\<close>, when the race that \<^verbatim>\<open>Exec\<close> started returns an error other
  than \<^verbatim>\<open>context.DeadlineExceeded\<close>, \<^verbatim>\<open>Exec\<close> returns that very error, the race call is
  the last effect of the run, and the run prints no error line, none of the timeout
  messages and no readiness success message.
\<close>

theorem Exec_failure_propagated:
  assumes "Tail opts"
    and "RaceRun ctx' t ops \<in> set (snd (Exec c ctx opts))"
    and "race_Run c ctx' t ops = Some e"
    and "e \<noteq> DeadlineExceeded"
  shows "fst (Exec c ctx opts) = Return (Some e)
         \<and> last (snd (Exec c ctx opts)) = RaceRun ctx' t ops
         \<and> (\<forall>ev \<in> set (snd (Exec c ctx opts)).
               \<not> is_Errorf ev \<and> ev \<notin> set (timeout_messages c opts) \<and> \<not> is_ready_message ev)"
proof -
  from race_reached [OF assms(2)] obtain d0 d where
    b: "build_deployer c ctx opts = Some d0" and cr: "fst (Exec_create c opts d0) = Inr d"
    and rc: "RaceRun ctx' t ops = race_call c ctx opts d" by blast
  from assms(3) rc have "call_error c (race_call c ctx opts d) = Some e"
    by (metis call_error.simps(2))
  from Exec_tail_failed [OF assms(1) this assms(4)] Exec_past_create [OF b cr] rc
  have run: "Exec c ctx opts =
      (Return (Some e),
       snd (Exec_create c opts d0)
         @ [Successf (''Created deployer %q'' @ [CHR 0x0A]) [Str (ObjectMeta_Name d)],
            Infof (''Waiting for deployer %q to become ready...'' @ [CHR 0x0A])
              [Str (ObjectMeta_Name d)],
            RaceRun ctx' t ops])"
    by simp
  show ?thesis
    unfolding run by (auto simp: Exec_create_trace timeout_messages_def)
qed

theorem Exec_failure_propagated_witness:
  "Tail sample_opts
   \<and> sample_race \<in> set (snd (Exec (sample_Config (Some (Failure ''stream closed''))) sample_ctx sample_opts))
   \<and> call_error (sample_Config (Some (Failure ''stream closed''))) sample_race
       = Some (Failure ''stream closed'')
   \<and> Failure ''stream closed'' \<noteq> DeadlineExceeded
   \<and> fst (Exec (sample_Config (Some (Failure ''stream closed''))) sample_ctx sample_opts)
       = Return (Some (Failure ''stream closed''))
   \<and> last (snd (Exec (sample_Config (Some (Failure ''stream closed''))) sample_ctx sample_opts))
       = sample_race"
proof -
  let ?c = "sample_Config (Some (Failure ''stream closed''))"
  have h2: "RaceRun sample_ctx 600000000000
       [WaitUntilReady ''deployers'' sample_deployer, KnativeDeployerLogs sample_deployer]
     \<in> set (snd (Exec ?c sample_ctx sample_opts))"
    using sample_reaches_race [of "Some (Failure ''stream closed'')"]
    by (simp add: sample_race_def)
  have h3: "race_Run ?c sample_ctx 600000000000
       [WaitUntilReady ''deployers'' sample_deployer, KnativeDeployerLogs sample_deployer]
     = Some (Failure ''stream closed'')"
    by (simp add: sample_Config_def)
  have h4: "Failure ''stream closed'' \<noteq> DeadlineExceeded" by simp
  from Exec_failure_propagated [OF sample_Tail h2 h3 h4] h2 h3 sample_Tail
  show ?thesis by (simp add: sample_race_def)
qed

text \<open>
  C3. With \<^verbatim>\<open>--tail\<close>, when the race that \<^verbatim>\<open>Exec\<close> started returns nil, \<^verbatim>\<open>Exec\<close>
  returns nil and the last thing it does is print the success message that names the
  deployer the race waited for.
\<close>

theorem Exec_ready:
  assumes "Tail opts"
    and "RaceRun ctx' t ops \<in> set (snd (Exec c ctx opts))"
    and "race_Run c ctx' t ops = None"
  shows "fst (Exec c ctx opts) = Return None
         \<and> (\<exists>d. ops = [WaitUntilReady ''deployers'' d, KnativeDeployerLogs d]
                \<and> last (snd (Exec c ctx opts))
                    = Successf (''Deployer %q is ready'' @ [CHR 0x0A]) [Str (ObjectMeta_Name d)])"
proof -
  from race_reached [OF assms(2)] obtain d0 d where
    b: "build_deployer c ctx opts = Some d0" and cr: "fst (Exec_create c opts d0) = Inr d"
    and rc: "RaceRun ctx' t ops = race_call c ctx opts d" by blast
  from assms(3) rc have "call_error c (race_call c ctx opts d) = None"
    by (metis call_error.simps(2))
  from Exec_tail_ready [OF assms(1) this] Exec_past_create [OF b cr]
  have run: "fst (Exec c ctx opts) = Return None"
    "last (snd (Exec c ctx opts))
       = Successf (''Deployer %q is ready'' @ [CHR 0x0A]) [Str (ObjectMeta_Name d)]"
    by simp_all
  from rc have "ops = [WaitUntilReady ''deployers'' d, KnativeDeployerLogs d]"
    by (simp add: race_call_def)
  with run show ?thesis by blast
qed

theorem Exec_ready_witness:
  "Tail sample_opts
   \<and> sample_race \<in> set (snd (Exec (sample_Config None) sample_ctx sample_opts))
   \<and> call_error (sample_Config None) sample_race = None
   \<and> fst (Exec (sample_Config None) sample_ctx sample_opts) = Return None
   \<and> last (snd (Exec (sample_Config None) sample_ctx sample_opts))
       = Successf (''Deployer %q is ready'' @ [CHR 0x0A]) [Str ''my-deployer'']"
proof -
  let ?c = "sample_Config None"
  have h2: "RaceRun sample_ctx 600000000000
       [WaitUntilReady ''deployers'' sample_deployer, KnativeDeployerLogs sample_deployer]
     \<in> set (snd (Exec ?c sample_ctx sample_opts))"
    using sample_reaches_race [of None] by (simp add: sample_race_def)
  have h3: "race_Run ?c sample_ctx 600000000000
       [WaitUntilReady ''deployers'' sample_deployer, KnativeDeployerLogs sample_deployer]
     = None"
    by (simp add: sample_Config_def)
  from Exec_ready [OF sample_Tail h2 h3] h2 h3 sample_Tail
  show ?thesis by (auto simp: sample_race_def sample_deployer_def)
qed

section \<open>The call of the race executor\<close>

text \<open>
  C5, as stated, fails: with \<^verbatim>\<open>--tail\<close> on a cluster that rejects the create call,
  \<^verbatim>\<open>Exec\<close> returns before the race and never calls the race executor.
\<close>

theorem Exec_race_skipped_counterexample:
  "Tail sample_opts \<and> race_calls (snd (Exec rejecting_Config sample_ctx sample_opts)) = []"
  by (simp add: Exec_race_calls rejecting_build Exec_create_def rejecting_create
      sample_not_DryRun sample_Tail)

text \<open>
  C5, amended. With \<^verbatim>\<open>--tail\<close>, when the resource is built and the run gets past its
  creation (a dry run, or a create call that returns no error), \<^verbatim>\<open>Exec\<close> calls the
  race executor exactly once, with the context, the timeout that
  \<^verbatim>\<open>time.ParseDuration\<close> gives for the wait timeout option (its error dropped) and
  exactly two operations: the readiness wait and the log stream of the created deployer.
\<close>

theorem Exec_race_once:
  assumes "Tail opts"
    and "build_deployer c ctx opts = Some d0"
    and "DryRun opts \<and> d = d0 \<or> \<not> DryRun opts \<and> Deployers_Create c (Namespace opts) d0 = Inr d"
  shows "race_calls (snd (Exec c ctx opts)) =
           [RaceRun ctx (fst (time_ParseDuration c (WaitTimeout opts)))
              [WaitUntilReady ''deployers'' d, KnativeDeployerLogs d]]"
proof -
  from assms(3) have "fst (Exec_create c opts d0) = Inr d"
    by (auto simp: Exec_create_def)
  with assms(1,2) show ?thesis
    by (simp add: Exec_race_calls race_call_def)
qed

theorem Exec_race_once_witness:
  "Tail sample_opts
   \<and> build_deployer (sample_Config None) sample_ctx sample_opts = Some sample_deployer
   \<and> \<not> DryRun sample_opts
   \<and> Deployers_Create (sample_Config None) (Namespace sample_opts) sample_deployer
       = Inr sample_deployer
   \<and> race_calls (snd (Exec (sample_Config None) sample_ctx sample_opts)) = [sample_race]"
proof -
  have h3: "Deployers_Create (sample_Config None) (Namespace sample_opts) sample_deployer
              = Inr sample_deployer"
    by (simp add: sample_Config_def)
  have t: "fst (time_ParseDuration (sample_Config None) (WaitTimeout sample_opts)) = 600000000000"
    by (simp add: sample_Config_def sample_opts_def)
  from Exec_race_once [OF sample_Tail sample_build [of None], of sample_deployer]
    h3 sample_not_DryRun t
  show ?thesis by (simp add: sample_race_def sample_Tail sample_build)
qed

text \<open>
  C6. With \<^verbatim>\<open>--tail\<close>, a run of \<^verbatim>\<open>Exec\<close> on a built resource \<open>d0\<close> has exactly one of
  the three outcomes ready, failed and timed out. Each outcome fixes all that the run
  does after the race (the readiness line alone, nothing, or the three timeout messages
  alone), so nothing follows it; the race executor is called at most once; and before
  the race the run prints no error line and no readiness line.
\<close>

theorem Exec_one_outcome:
  assumes "Tail opts" and "build_deployer c ctx opts = Some d0"
  shows "(Ready (Exec c ctx opts) \<and> \<not> Failed c (Exec c ctx opts)
            \<and> \<not> TimedOut (Exec c ctx opts)
          \<or> \<not> Ready (Exec c ctx opts) \<and> Failed c (Exec c ctx opts)
            \<and> \<not> TimedOut (Exec c ctx opts)
          \<or> \<not> Ready (Exec c ctx opts) \<and> \<not> Failed c (Exec c ctx opts)
            \<and> TimedOut (Exec c ctx opts))
         \<and> length (race_calls (snd (Exec c ctx opts))) \<le> 1
         \<and> (\<forall>ev \<in> set (before_race (snd (Exec c ctx opts))).
               \<not> is_Errorf ev \<and> \<not> is_ready_message ev)"
proof (intro conjI)
  note b = assms(2)
  show "length (race_calls (snd (Exec c ctx opts))) \<le> 1"
    by (simp add: Exec_race_calls split: option.splits sum.splits)
  have both: "(Ready (Exec c ctx opts) \<and> \<not> Failed c (Exec c ctx opts)
            \<and> \<not> TimedOut (Exec c ctx opts)
          \<or> \<not> Ready (Exec c ctx opts) \<and> Failed c (Exec c ctx opts)
            \<and> \<not> TimedOut (Exec c ctx opts)
          \<or> \<not> Ready (Exec c ctx opts) \<and> \<not> Failed c (Exec c ctx opts)
            \<and> TimedOut (Exec c ctx opts))
     \<and> (\<forall>ev \<in> set (before_race (snd (Exec c ctx opts))).
               \<not> is_Errorf ev \<and> \<not> is_ready_message ev)"
  proof (cases "fst (Exec_create c opts d0)")
    case (Inl e)
    then have nd: "\<not> DryRun opts" and ce: "Deployers_Create c (Namespace opts) d0 = Inl e"
      by (auto simp: Exec_create_def split: if_splits)
    have run: "Exec c ctx opts = (Return (Some e), [Create (Namespace opts) d0])"
      using Exec_create_failed [OF b Inl] nd by (simp add: Exec_create_trace)
    have "\<not> Ready (Exec c ctx opts)" by (simp add: run Ready_def)
    moreover have "Failed c (Exec c ctx opts)"
      by (simp add: run Failed_def ce after_race_def)
    moreover have "\<not> TimedOut (Exec c ctx opts)"
      by (simp add: run TimedOut_def after_race_def)
    moreover have "\<forall>ev \<in> set (before_race (snd (Exec c ctx opts))).
        \<not> is_Errorf ev \<and> \<not> is_ready_message ev"
      by (simp add: run before_race_def)
    ultimately show ?thesis by blast
  next
    case (Inr d)
    note past = Exec_past_create [OF b Inr]
    have quiet: "\<forall>ev \<in> set (snd (Exec_create c opts d0)).
        \<not> is_Errorf ev \<and> \<not> is_ready_message ev"
      by (simp add: Exec_create_trace)
    show ?thesis
    proof (cases "call_error c (race_call c ctx opts d)")
      case None
      note tl = Exec_tail_ready [OF assms(1) None]
      have "Ready (Exec c ctx opts)"
        by (simp add: past tl Ready_def after_race_wait)
      moreover have "\<not> Failed c (Exec c ctx opts)" by (simp add: past tl Failed_def)
      moreover have "\<not> TimedOut (Exec c ctx opts)" by (simp add: past tl TimedOut_def)
      moreover have "\<forall>ev \<in> set (before_race (snd (Exec c ctx opts))).
          \<not> is_Errorf ev \<and> \<not> is_ready_message ev"
        using quiet by (simp add: past tl before_race_wait)
      ultimately show ?thesis by blast
    next
      case (Some e)
      show ?thesis
      proof (cases "e = DeadlineExceeded")
        case True
        with Some have "call_error c (race_call c ctx opts d) = Some DeadlineExceeded" by simp
        note tl = Exec_tail_timeout [OF assms(1) this]
        have "\<not> Ready (Exec c ctx opts)" by (simp add: past tl Ready_def)
        moreover have "\<not> Failed c (Exec c ctx opts)"
          by (simp add: past tl Failed_def after_race_wait timeout_messages_def)
        moreover have "TimedOut (Exec c ctx opts)"
          by (simp add: past tl TimedOut_def after_race_wait timeout_messages_def)
        moreover have "\<forall>ev \<in> set (before_race (snd (Exec c ctx opts))).
            \<not> is_Errorf ev \<and> \<not> is_ready_message ev"
          using quiet by (simp add: past tl before_race_wait)
        ultimately show ?thesis by blast
      next
        case False
        note tl = Exec_tail_failed [OF assms(1) Some False]
        have "\<not> Ready (Exec c ctx opts)" by (simp add: past tl Ready_def)
        moreover have "Failed c (Exec c ctx opts)"
          using Some by (simp add: past tl Failed_def after_race_wait)
        moreover have "\<not> TimedOut (Exec c ctx opts)"
          by (simp add: past tl TimedOut_def after_race_wait)
        moreover have "\<forall>ev \<in> set (before_race (snd (Exec c ctx opts))).
            \<not> is_Errorf ev \<and> \<not> is_ready_message ev"
          using quiet by (simp add: past tl before_race_wait)
        ultimately show ?thesis by blast
      qed
    qed
  qed
  from both show "Ready (Exec c ctx opts) \<and> \<not> Failed c (Exec c ctx opts)
            \<and> \<not> TimedOut (Exec c ctx opts)
          \<or> \<not> Ready (Exec c ctx opts) \<and> Failed c (Exec c ctx opts)
            \<and> \<not> TimedOut (Exec c ctx opts)
          \<or> \<not> Ready (Exec c ctx opts) \<and> \<not> Failed c (Exec c ctx opts)
            \<and> TimedOut (Exec c ctx opts)" by blast
  from both show "\<forall>ev \<in> set (before_race (snd (Exec c ctx opts))).
               \<not> is_Errorf ev \<and> \<not> is_ready_message ev" by blast
qed

theorem Exec_one_outcome_witness:
  "Tail sample_opts
   \<and> build_deployer (sample_Config (Some DeadlineExceeded)) sample_ctx sample_opts
       = Some sample_deployer
   \<and> \<not> Ready (Exec (sample_Config (Some DeadlineExceeded)) sample_ctx sample_opts)
   \<and> \<not> Failed (sample_Config (Some DeadlineExceeded))
         (Exec (sample_Config (Some DeadlineExceeded)) sample_ctx sample_opts)
   \<and> TimedOut (Exec (sample_Config (Some DeadlineExceeded)) sample_ctx sample_opts)
   \<and> length (race_calls (snd (Exec (sample_Config (Some DeadlineExceeded)) sample_ctx sample_opts)))
       \<le> 1"
proof -
  let ?c = "sample_Config (Some DeadlineExceeded)"
  have nr: "\<not> Ready (Exec ?c sample_ctx sample_opts)"
    by (simp add: Ready_def sample_timeout_run)
  have nf: "\<not> Failed ?c (Exec ?c sample_ctx sample_opts)"
    by (simp add: Failed_def sample_timeout_run)
  from Exec_one_outcome [OF sample_Tail sample_build] sample_Tail
    sample_build [of "Some DeadlineExceeded"] nr nf
  show ?thesis by blast
qed

text \<open>
  C7, as stated, fails: on the timeout path of the sample run the status line is
  printed from the name of the CLI, the namespace flag and the namespace; the name of
  the resource is not among its arguments.
\<close>

theorem status_line_without_name_counterexample:
  "Tail sample_opts
   \<and> fst (Exec (sample_Config (Some DeadlineExceeded)) sample_ctx sample_opts)
       = Return (Some (SilenceError DeadlineExceeded))
   \<and> snd (Exec (sample_Config (Some DeadlineExceeded)) sample_ctx sample_opts) ! 5
       = Infof (''To view status run: %s knative deployer list %s %s'' @ [CHR 0x0A])
           [Str ''riff'', FlagName NamespaceFlagName, Str ''default'']
   \<and> Str (Name sample_opts)
       \<notin> set (event_args
                (snd (Exec (sample_Config (Some DeadlineExceeded)) sample_ctx sample_opts) ! 5))"
proof -
  have "Name sample_opts = ''my-deployer''" by (simp add: sample_opts_def)
  then show ?thesis by (simp add: sample_timeout_run sample_Tail)
qed

text \<open>
  C7, amended. On the timeout path \<^verbatim>\<open>Exec\<close> prints, right after the race and as the
  last effects of the run, exactly three messages, each from a format string of one
  line: an error line with the wait timeout option and the resource name, an
  informational line for the status check with the CLI name and the namespace, and an
  informational line for resuming the log tail with the CLI name, the resource name and
  the namespace.
\<close>

theorem Exec_timeout_messages:
  assumes "Tail opts"
    and "RaceRun ctx' t ops \<in> set (snd (Exec c ctx opts))"
    and "race_Run c ctx' t ops = Some DeadlineExceeded"
  shows "(\<exists>pre. snd (Exec c ctx opts) =
            pre @ [RaceRun ctx' t ops,
              Errorf (''Timeout after %q waiting for %q to become ready'' @ [CHR 0x0A])
                [Str (WaitTimeout opts), Str (Name opts)],
              Infof (''To view status run: %s knative deployer list %s %s'' @ [CHR 0x0A])
                [Str (cli_Name c), FlagName NamespaceFlagName, Str (Namespace opts)],
              Infof (''To continue watching logs run: %s knative deployer tail %s %s %s''
                       @ [CHR 0x0A])
                [Str (cli_Name c), Str (Name opts), FlagName NamespaceFlagName,
                 Str (Namespace opts)]])
         \<and> single_line (''Timeout after %q waiting for %q to become ready'' @ [CHR 0x0A])
         \<and> single_line (''To view status run: %s knative deployer list %s %s'' @ [CHR 0x0A])
         \<and> single_line (''To continue watching logs run: %s knative deployer tail %s %s %s''
                          @ [CHR 0x0A])"
proof (intro conjI)
  from race_reached [OF assms(2)] obtain d0 d where
    b: "build_deployer c ctx opts = Some d0" and cr: "fst (Exec_create c opts d0) = Inr d"
    and rc: "RaceRun ctx' t ops = race_call c ctx opts d" by blast
  from assms(3) rc have "call_error c (race_call c ctx opts d) = Some DeadlineExceeded"
    by (metis call_error.simps(2))
  from Exec_tail_timeout [OF assms(1) this] Exec_past_create [OF b cr] rc
  have "snd (Exec c ctx opts) =
      (snd (Exec_create c opts d0)
         @ [Successf (''Created deployer %q'' @ [CHR 0x0A]) [Str (ObjectMeta_Name d)],
            Infof (''Waiting for deployer %q to become ready...'' @ [CHR 0x0A])
              [Str (ObjectMeta_Name d)]])
        @ [RaceRun ctx' t ops,
              Errorf (''Timeout after %q waiting for %q to become ready'' @ [CHR 0x0A])
                [Str (WaitTimeout opts), Str (Name opts)],
              Infof (''To view status run: %s knative deployer list %s %s'' @ [CHR 0x0A])
                [Str (cli_Name c), FlagName NamespaceFlagName, Str (Namespace opts)],
              Infof (''To continue watching logs run: %s knative deployer tail %s %s %s''
                       @ [CHR 0x0A])
                [Str (cli_Name c), Str (Name opts), FlagName NamespaceFlagName,
                 Str (Namespace opts)]]"
    by (simp add: timeout_messages_def)
  then show "\<exists>pre. snd (Exec c ctx opts) =
            pre @ [RaceRun ctx' t ops,
              Errorf (''Timeout after %q waiting for %q to become ready'' @ [CHR 0x0A])
                [Str (WaitTimeout opts), Str (Name opts)],
              Infof (''To view status run: %s knative deployer list %s %s'' @ [CHR 0x0A])
                [Str (cli_Name c), FlagName NamespaceFlagName, Str (Namespace opts)],
              Infof (''To continue watching logs run: %s knative deployer tail %s %s %s''
                       @ [CHR 0x0A])
                [Str (cli_Name c), Str (Name opts), FlagName NamespaceFlagName,
                 Str (Namespace opts)]]"
    by blast
qed (simp_all add: single_line_def)

theorem Exec_timeout_messages_witness:
  "Tail sample_opts
   \<and> sample_race \<in> set (snd (Exec (sample_Config (Some DeadlineExceeded)) sample_ctx sample_opts))
   \<and> call_error (sample_Config (Some DeadlineExceeded)) sample_race = Some DeadlineExceeded
   \<and> single_line (''To view status run: %s knative deployer list %s %s'' @ [CHR 0x0A])
   \<and> drop 4 (snd (Exec (sample_Config (Some DeadlineExceeded)) sample_ctx sample_opts))
       = timeout_messages (sample_Config (Some DeadlineExceeded)) sample_opts"
proof -
  let ?c = "sample_Config (Some DeadlineExceeded)"
  have h2: "RaceRun sample_ctx 600000000000
       [WaitUntilReady ''deployers'' sample_deployer, KnativeDeployerLogs sample_deployer]
     \<in> set (snd (Exec ?c sample_ctx sample_opts))"
    using sample_reaches_race [of "Some DeadlineExceeded"] by (simp add: sample_race_def)
  have h3: "race_Run ?c sample_ctx 600000000000
       [WaitUntilReady ''deployers'' sample_deployer, KnativeDeployerLogs sample_deployer]
     = Some DeadlineExceeded"
    by (simp add: sample_Config_def)
  have len: "length (snd (Exec ?c sample_ctx sample_opts)) = 7"
    by (simp add: sample_timeout_run)
  from Exec_timeout_messages [OF sample_Tail h2 h3] obtain pre where
    tr: "snd (Exec ?c sample_ctx sample_opts) = pre @ RaceRun sample_ctx 600000000000
       [WaitUntilReady ''deployers'' sample_deployer, KnativeDeployerLogs sample_deployer]
        # timeout_messages ?c sample_opts"
    and sl: "single_line (''To view status run: %s knative deployer list %s %s'' @ [CHR 0x0A])"
    by (auto simp: timeout_messages_def)
  from tr len have "length pre = 3" by (simp add: timeout_messages_def)
  with tr have "drop 4 (snd (Exec ?c sample_ctx sample_opts)) = timeout_messages ?c sample_opts"
    by simp
  with sl h2 h3 sample_Tail show ?thesis by (simp add: sample_race_def)
qed

section \<open>Validation and the paths around the wait\<close>

text \<open>
  C8. When \<^verbatim>\<open>Validate\<close> reports no field error and \<^verbatim>\<open>--tail\<close> is set, the wait
  timeout option is not empty and \<^verbatim>\<open>time.ParseDuration\<close> accepts it, so every race that
  \<^verbatim>\<open>Exec\<close> starts gets the parsed duration as its timeout.
\<close>

theorem Validate_guards_timeout:
  assumes "Validate c ctx opts = []" and "Tail opts"
  shows "WaitTimeout opts \<noteq> []
         \<and> snd (time_ParseDuration c (WaitTimeout opts)) = None
         \<and> (\<forall>ctx' t ops. RaceRun ctx' t ops \<in> set (snd (Exec c ctx opts))
               \<longrightarrow> time_ParseDuration c (WaitTimeout opts) = (t, None))"
proof -
  from Validate_empty(1) [OF assms(1)] assms(2)
  have ne: "WaitTimeout opts \<noteq> []" and ok: "snd (time_ParseDuration c (WaitTimeout opts)) = None"
    by (simp_all add: Validate_tail_def ErrMissingField_def ErrInvalidValue_def split: if_splits)
  have "time_ParseDuration c (WaitTimeout opts) = (t, None)"
    if "RaceRun ctx' t ops \<in> set (snd (Exec c ctx opts))" for ctx' t ops
  proof -
    from race_reached [OF that] obtain d where "RaceRun ctx' t ops = race_call c ctx opts d"
      by blast
    then have "t = fst (time_ParseDuration c (WaitTimeout opts))"
      by (simp add: race_call_def)
    with ok show ?thesis by (simp add: prod_eq_iff)
  qed
  with ne ok show ?thesis by blast
qed

theorem Validate_guards_timeout_witness:
  "Validate (sample_Config None) sample_ctx sample_opts = []
   \<and> Tail sample_opts
   \<and> WaitTimeout sample_opts \<noteq> []
   \<and> snd (time_ParseDuration (sample_Config None) (WaitTimeout sample_opts)) = None"
  using Validate_guards_timeout [OF sample_Validate sample_Tail] sample_Validate sample_Tail
  by simp

text \<open>
  C9. Without \<^verbatim>\<open>--dry-run\<close>, when the remote create call returns an error, \<^verbatim>\<open>Exec\<close>
  returns that error and the create call is the only effect of the run: nothing is
  printed and the race executor is not called.
\<close>

theorem Exec_create_error:
  assumes "\<not> DryRun opts"
    and "build_deployer c ctx opts = Some d0"
    and "Deployers_Create c (Namespace opts) d0 = Inl e"
  shows "Exec c ctx opts = (Return (Some e), [Create (Namespace opts) d0])
         \<and> race_calls (snd (Exec c ctx opts)) = []"
proof -
  from assms(1,3) have cr: "fst (Exec_create c opts d0) = Inl e"
    by (simp add: Exec_create_def)
  from Exec_create_failed [OF assms(2) cr] assms(1)
  have "Exec c ctx opts = (Return (Some e), [Create (Namespace opts) d0])"
    by (simp add: Exec_create_trace)
  then show ?thesis by (simp add: race_calls_def)
qed

theorem Exec_create_error_witness:
  "\<not> DryRun sample_opts
   \<and> build_deployer rejecting_Config sample_ctx sample_opts = Some sample_deployer
   \<and> Deployers_Create rejecting_Config (Namespace sample_opts) sample_deployer
       = Inl (Failure ''forbidden'')
   \<and> Exec rejecting_Config sample_ctx sample_opts
       = (Return (Some (Failure ''forbidden'')), [Create ''default'' sample_deployer])"
proof -
  have ns: "Namespace sample_opts = ''default''" by (simp add: sample_opts_def)
  from Exec_create_error [OF sample_not_DryRun rejecting_build rejecting_create]
    sample_not_DryRun rejecting_build rejecting_create ns
  show ?thesis by simp
qed

text \<open>
  C10. With \<^verbatim>\<open>--dry-run\<close> \<^verbatim>\<open>Exec\<close> never calls the remote create, and the first
  effect of a run that built the resource is to render it. When \<^verbatim>\<open>Validate\<close> reports no
  field error, \<^verbatim>\<open>--tail\<close> is off, the race executor is not called, and the run only
  renders the resource, prints the creation message and returns nil.
\<close>

theorem Exec_dry_run:
  assumes "DryRun opts"
  shows "(\<forall>ev \<in> set (snd (Exec c ctx opts)). \<not> is_Create ev)
         \<and> (\<forall>d0. build_deployer c ctx opts = Some d0
                \<longrightarrow> hd (snd (Exec c ctx opts)) = DryRunResource d0)
         \<and> (Validate c ctx opts = []
              \<longrightarrow> \<not> Tail opts
                \<and> race_calls (snd (Exec c ctx opts)) = []
                \<and> (\<forall>d0. build_deployer c ctx opts = Some d0
                      \<longrightarrow> Exec c ctx opts
                            = (Return None,
                               [DryRunResource d0,
                                Successf (''Created deployer %q'' @ [CHR 0x0A])
                                  [Str (ObjectMeta_Name d0)]])))"
proof (intro conjI allI impI)
  show "\<forall>ev \<in> set (snd (Exec c ctx opts)). \<not> is_Create ev"
  proof (cases "build_deployer c ctx opts")
    case None
    then show ?thesis by (simp add: Exec_panic)
  next
    case (Some d0)
    have "\<forall>ev \<in> set (snd (Exec_tail c ctx opts d0)). \<not> is_Create ev"
      by (auto simp: Exec_tail_def Let_def timeout_messages_def split: if_splits)
    then show ?thesis
      by (simp add: dry_run_trace [OF assms Some])
  qed
next
  fix d0 assume "build_deployer c ctx opts = Some d0"
  then show "hd (snd (Exec c ctx opts)) = DryRunResource d0"
    by (simp add: dry_run_trace [OF assms])
next
  assume v: "Validate c ctx opts = []"
  from Validate_empty(2) [OF v] assms show nt: "\<not> Tail opts"
    by (simp add: Validate_dry_run_def ErrMultipleOneOf_def split: if_splits)
  then show "race_calls (snd (Exec c ctx opts)) = []"
    by (simp add: Exec_race_calls split: option.splits sum.splits)
  fix d0 assume "build_deployer c ctx opts = Some d0"
  with nt show "Exec c ctx opts =
      (Return None,
       [DryRunResource d0,
        Successf (''Created deployer %q'' @ [CHR 0x0A]) [Str (ObjectMeta_Name d0)]])"
    by (simp add: dry_run_trace [OF assms] Exec_tail_off)
qed

theorem Exec_dry_run_witness:
  "DryRun dry_run_opts
   \<and> Validate (sample_Config None) sample_ctx dry_run_opts = []
   \<and> build_deployer (sample_Config None) sample_ctx dry_run_opts = Some sample_deployer
   \<and> \<not> Tail dry_run_opts
   \<and> Exec (sample_Config None) sample_ctx dry_run_opts
       = (Return None,
          [DryRunResource sample_deployer,
           Successf (''Created deployer %q'' @ [CHR 0x0A]) [Str ''my-deployer'']])"
proof -
  have d: "DryRun dry_run_opts" by (simp add: dry_run_opts_def)
  have n: "ObjectMeta_Name sample_deployer = ''my-deployer''" by (simp add: sample_deployer_def)
  from Exec_dry_run [OF d, of "sample_Config None" sample_ctx] d dry_run_Validate dry_run_build n
  show ?thesis by simp
qed

end
